theory Spec2Isabelle
  imports Complex_Main "HOL-Library.AList"
begin

section \<open>Errors\<close>

text \<open>
  Python exceptions are values. Only the classes that \<^verbatim>\<open>main.py\<close> raises or
  catches are told apart; \<open>OtherError\<close> stands for any other exception a rule
  function may raise.
\<close>

datatype error = AttributeError string | TypeError | ValueError | IndexError | OtherError string

section \<open>Configuration\<close>

text \<open>
  \<^verbatim>\<open>params\<close> is the dictionary read from \<^verbatim>\<open>params.yaml\<close>. The five counts are
  natural numbers here: numpy rejects a negative dimension and \<^verbatim>\<open>range\<close> of a
  negative count is empty. numpy's float64 values are modelled as real numbers.
\<close>

record params =
  p_grid_size :: nat
  p_n_cell :: nat
  p_num_sim :: nat
  p_num_sensors :: nat
  p_num_actions :: nat
  mean_death :: real
  mean_sex :: real
  mean_strength :: real
  mean_velocity :: real
  std_death :: real
  std_sex :: real
  std_strength :: real
  std_velocity :: real

definition mean_physics :: "params \<Rightarrow> real list" where
  "mean_physics p = [mean_death p, mean_sex p, mean_strength p, mean_velocity p]"

definition std_physics :: "params \<Rightarrow> real list" where
  "std_physics p = [std_death p, std_sex p, std_strength p, std_velocity p]"

section \<open>Numeric helpers\<close>

text \<open>\<^verbatim>\<open>ndarray.round()\<close> rounds to the nearest integer, a tie to the even one.\<close>

definition np_round :: "real \<Rightarrow> real" where
  "np_round x =
     (let f = \<lfloor>x\<rfloor>; d = x - of_int f
      in if d < 1 / 2 then of_int f
         else if 1 / 2 < d then of_int (f + 1)
         else if even f then of_int f else of_int (f + 1))"

text \<open>\<^verbatim>\<open>int(x)\<close> on a float truncates towards zero.\<close>

definition py_int :: "real \<Rightarrow> int" where
  "py_int x = (if 0 \<le> x then \<lfloor>x\<rfloor> else \<lceil>x\<rceil>)"

text \<open>The logistic function \<^verbatim>\<open>1 / (1 + np.exp(-1 * x))\<close>.\<close>

definition sigmoid :: "real \<Rightarrow> real" where
  "sigmoid x = 1 / (1 + exp (- 1 * x))"

definition dot :: "real list \<Rightarrow> real list \<Rightarrow> real" where
  "dot xs ys = sum_list (map2 (*) xs ys)"

section \<open>Cell\<close>

text \<open>
  A two-dimensional array keeps its column count even when it has no row, so the
  weight matrix is a column count with its rows.
\<close>

record matrix =
  ncols :: nat
  mrows :: "real list list"

datatype pos_map_val = PosInt int | PosList "(int \<times> int) list"

record cell =
  grid_size :: nat
  alive :: bool
  age :: int
  phys_dna :: "real list"
  brain_dna :: matrix
  death_age :: real
  sex :: real
  strength :: real
  velocity :: real
  pos :: "real \<times> real"
  sensors :: "real list"
  actions :: "real list"

text \<open>
  The draws a new cell takes from the random generator: the standard normal
  draws of the physical genes, the draws \<^verbatim>\<open>normal(0, 0.01)\<close> of the weights, and
  the two draws \<^verbatim>\<open>uniform(0, grid_size - 1)\<close> of the position.
\<close>

record seed =
  z_phys :: "nat \<Rightarrow> real"
  z_brain :: "nat \<Rightarrow> nat \<Rightarrow> real"
  u_pos :: "nat \<Rightarrow> real"

definition Cell_init :: "params \<Rightarrow> seed \<Rightarrow> cell" where
  "Cell_init p sd =
     (let pd = map (\<lambda>i. z_phys sd i * std_physics p ! i + mean_physics p ! i)
                 [0..<length (mean_physics p)]
      in \<lparr> grid_size = p_grid_size p,
           alive = True,
           age = 0,
           phys_dna = pd,
           brain_dna = \<lparr> ncols = p_num_sensors p,
                         mrows = map (\<lambda>i. map (\<lambda>j. z_brain sd i j) [0..<p_num_sensors p])
                                     [0..<p_num_actions p] \<rparr>,
           death_age = pd ! 0,
           sex = np_round (pd ! 1),
           strength = pd ! 2,
           velocity = np_round (pd ! 3),
           pos = (np_round (u_pos sd 0), np_round (u_pos sd 1)),
           sensors = replicate (p_num_sensors p) 0,
           actions = replicate (p_num_actions p) 0 \<rparr>)"

text \<open>
  \<^verbatim>\<open>update_sensors\<close> takes one draw \<open>r\<close> of \<^verbatim>\<open>np.random.random\<close>. The position
  map is not read.
\<close>

definition update_sensors :: "int \<Rightarrow> pos_map_val \<Rightarrow> real \<Rightarrow> cell \<Rightarrow> cell" where
  "update_sensors clock pos_map r c =
     c\<lparr>sensors :=
         [1,
          r,
          sin (pi * of_int clock / 10),
          fst (pos c) / of_nat (grid_size c),
          snd (pos c) / of_nat (grid_size c)]\<rparr>"

text \<open>
  \<^verbatim>\<open>brain_dna @ sensors\<close> raises ValueError unless the matrix has as many columns
  as the sensor vector has entries.
\<close>

definition think :: "cell \<Rightarrow> error + cell" where
  "think c =
     (if ncols (brain_dna c) \<noteq> length (sensors c) then Inl ValueError
      else Inr (c\<lparr>actions :=
                   map (\<lambda>row. np_round (sigmoid (dot row (sensors c)))) (mrows (brain_dna c))\<rparr>))"

text \<open>
  \<^verbatim>\<open>actions[:2] - actions[2:4]\<close>: with four or more actions the difference is
  taken channel by channel; with three, the single element of \<^verbatim>\<open>actions[2:4]\<close> is
  broadcast over both axes; with fewer the shapes do not broadcast against the
  position and numpy raises ValueError. The clamp is \<^verbatim>\<open>maximum(minimum(_, grid_size - 1), 0)\<close>.
\<close>

definition clamp_axis :: "nat \<Rightarrow> real \<Rightarrow> real" where
  "clamp_axis gs x = max (min x (of_nat gs - 1)) 0"

definition move :: "cell \<Rightarrow> error + cell" where
  "move c =
     (let a = actions c; v = velocity c; gs = grid_size c in
      if 4 \<le> length a then
        Inr (c\<lparr>pos := (clamp_axis gs (fst (pos c) + (a ! 0 - a ! 2) * v),
                       clamp_axis gs (snd (pos c) + (a ! 1 - a ! 3) * v))\<rparr>)
      else if length a = 3 then
        Inr (c\<lparr>pos := (clamp_axis gs (fst (pos c) + (a ! 0 - a ! 2) * v),
                       clamp_axis gs (snd (pos c) + (a ! 1 - a ! 2) * v))\<rparr>)
      else Inl ValueError)"

definition live :: "int \<Rightarrow> pos_map_val \<Rightarrow> real \<Rightarrow> cell \<Rightarrow> error + cell" where
  "live clock pos_map r c =
     (case move c of
        Inl err \<Rightarrow> Inl err
      | Inr c1 \<Rightarrow>
          (case think (update_sensors clock pos_map r c1) of
             Inl err \<Rightarrow> Inl err
           | Inr c3 \<Rightarrow>
               (let c4 = c3\<lparr>age := age c3 + 1\<rparr>
                in if death_age c4 \<le> of_int (age c4) then Inr (c4\<lparr>alive := False\<rparr>)
                   else Inr c4)))"

text \<open>
  A run of per-tick steps of one cell: each step has its clock value, position
  map and random draw.
\<close>

fun live_steps :: "(int \<times> pos_map_val \<times> real) list \<Rightarrow> cell \<Rightarrow> error + cell" where
  "live_steps [] c = Inr c"
| "live_steps ((clock, pm, r) # xs) c =
     (case live clock pm r c of Inl err \<Rightarrow> Inl err | Inr c' \<Rightarrow> live_steps xs c')"

section \<open>Environment\<close>

text \<open>
  \<^verbatim>\<open>cellrule\<close> holds the text \<^verbatim>\<open>"default"\<close> after \<^verbatim>\<open>Environment()\<close> and the
  pair (name, function) that the registry lookup returned after \<^verbatim>\<open>Simulation()\<close>.
  \<open>attrs\<close> is the part of the instance dictionary that \<^verbatim>\<open>setattr\<close> fills. Rule
  names are taken to be ordinary identifiers different from the attribute names
  that Environment, Cell and \<^verbatim>\<open>object\<close> define themselves.
\<close>

datatype 'f rule_ref = RName string | RTuple string 'f

record 'f environment =
  cellrule :: "'f rule_ref"
  clock :: int
  size_e :: nat
  ncell :: nat
  grid :: "int list list"
  cells :: "cell list"
  pos_map :: pos_map_val
  attrs :: "(string \<times> 'f) list"

definition Environment_init :: "params \<Rightarrow> (nat \<Rightarrow> seed) \<Rightarrow> 'f environment" where
  "Environment_init p seeds =
     \<lparr> cellrule = RName ''default'',
       clock = 0,
       size_e = p_grid_size p,
       ncell = p_n_cell p,
       grid = replicate (p_grid_size p) (replicate (p_grid_size p) 0),
       cells = map (\<lambda>i. Cell_init p (seeds i)) [0..<p_n_cell p],
       pos_map = PosInt 0,
       attrs = [] \<rparr>"

text \<open>
  \<^verbatim>\<open>f"{attr}"\<close>: a text is itself; a pair is printed as a tuple, which is the name
  of no attribute (the address in the function's printed form is left out).
\<close>

definition quoted :: "string \<Rightarrow> string" where
  "quoted n = [CHR 0x27] @ n @ [CHR 0x27]"

fun format_attr :: "'f rule_ref \<Rightarrow> string" where
  "format_attr (RName n) = n"
| "format_attr (RTuple n f) = ''('' @ quoted n @ '', <function '' @ n @ ''>)''"

text \<open>
  \<^verbatim>\<open>getattr(cell, name)\<close>. No cell ever receives an attribute through
  \<^verbatim>\<open>setattr\<close> (see \<open>Simulation_init\<close>), so a name resolves to one of the four
  methods of the class or to one of the data attributes set by \<^verbatim>\<open>__init__\<close>.
  The names every Python object inherits are left out.
\<close>

datatype meth = Live | UpdateSensors | Think | Move

datatype cell_attr = Method meth | Data

definition cell_data_attrs :: "string list" where
  "cell_data_attrs =
     [''grid_size'', ''alive'', ''age'', ''phys_dna'', ''brain_dna'', ''death_age'', ''sex'',
      ''strength'', ''velocity'', ''pos'', ''sensors'', ''actions'']"

definition getattr_cell :: "string \<Rightarrow> cell_attr option" where
  "getattr_cell n =
     (if n = ''live'' then Some (Method Live)
      else if n = ''update_sensors'' then Some (Method UpdateSensors)
      else if n = ''think'' then Some (Method Think)
      else if n = ''move'' then Some (Method Move)
      else if n \<in> set cell_data_attrs then Some Data
      else None)"

text \<open>
  Calling what \<^verbatim>\<open>getattr\<close> returned with \<^verbatim>\<open>*args\<close>: the two call sites pass
  \<^verbatim>\<open>(clock, pos_map)\<close> or nothing. A method called with the wrong number of
  arguments and a data attribute that is called raise TypeError. \<open>r\<close> is the
  random draw the call may take.
\<close>

fun invoke :: "cell_attr \<Rightarrow> (int \<times> pos_map_val) option \<Rightarrow> real \<Rightarrow> cell \<Rightarrow> error + cell" where
  "invoke (Method Live) (Some (clk, pm)) r c = live clk pm r c"
| "invoke (Method UpdateSensors) (Some (clk, pm)) r c = Inr (update_sensors clk pm r c)"
| "invoke (Method Think) None r c = think c"
| "invoke (Method Move) None r c = move c"
| "invoke _ _ _ _ = Inl TypeError"

text \<open>
  The second comprehension of \<^verbatim>\<open>call_all\<close>: the cells are called in list order;
  \<open>rnd k\<close> is the draw of the \<open>k\<close>-th cell.
\<close>

fun invoke_all ::
  "cell_attr \<Rightarrow> (int \<times> pos_map_val) option \<Rightarrow> (nat \<Rightarrow> real) \<Rightarrow> nat \<Rightarrow> cell list \<Rightarrow> error + cell list"
where
  "invoke_all a args rnd k [] = Inr []"
| "invoke_all a args rnd k (c # cs) =
     (case invoke a args (rnd k) c of
        Inl err \<Rightarrow> Inl err
      | Inr c' \<Rightarrow>
          (case invoke_all a args rnd (Suc k) cs of
             Inl err \<Rightarrow> Inl err
           | Inr cs' \<Rightarrow> Inr (c' # cs')))"

text \<open>
  \<^verbatim>\<open>call_all\<close> first resolves the name on every cell, then calls. All cells
  resolve a name alike, so the first comprehension fails exactly when there is a
  cell and the name is unknown. The result is the list of the cells after their
  calls (the list of return values is not used by any caller).
\<close>

definition call_all ::
  "string \<Rightarrow> (int \<times> pos_map_val) option \<Rightarrow> (nat \<Rightarrow> real) \<Rightarrow> cell list \<Rightarrow> error + cell list"
where
  "call_all attr args rnd cs =
     (if cs = [] then Inr []
      else case getattr_cell attr of
             None \<Rightarrow> Inl (AttributeError (quoted ''Cell'' @ '' object has no attribute '' @ quoted attr))
           | Some a \<Rightarrow> invoke_all a args rnd 0 cs)"

text \<open>
  \<^verbatim>\<open>np.any\<close> of a list of cell objects is false exactly for the empty list. The
  result pairs the returned value with the environment after the call.
\<close>

definition update :: "(nat \<Rightarrow> real) \<Rightarrow> 'f environment \<Rightarrow> error + (int \<times> 'f environment)" where
  "update rnd e =
     (if cells e = [] then Inr (0, e)
      else case call_all (format_attr (cellrule e)) (Some (clock e, pos_map e)) rnd (cells e) of
             Inl err \<Rightarrow> Inl err
           | Inr cs1 \<Rightarrow>
               (case call_all ''think'' None rnd cs1 of
                  Inl err \<Rightarrow> Inl err
                | Inr cs2 \<Rightarrow> Inr (1, e\<lparr>clock := clock e + 1, cells := filter alive cs2\<rparr>)))"

text \<open>
  An index into an axis of length \<open>n\<close>: a negative index counts from the end, an
  index outside \<open>[-n, n)\<close> raises IndexError.
\<close>

definition norm_index :: "nat \<Rightarrow> int \<Rightarrow> nat option" where
  "norm_index n i =
     (if 0 \<le> i \<and> i < int n then Some (nat i)
      else if - int n \<le> i \<and> i < 0 then Some (nat (i + int n))
      else None)"

fun index_pairs :: "nat \<Rightarrow> (int \<times> int) list \<Rightarrow> (nat \<times> nat) list option" where
  "index_pairs n [] = Some []"
| "index_pairs n ((r, c) # ps) =
     (case norm_index n r of
        None \<Rightarrow> None
      | Some r' \<Rightarrow>
          (case norm_index n c of
             None \<Rightarrow> None
           | Some c' \<Rightarrow>
               (case index_pairs n ps of None \<Rightarrow> None | Some qs \<Rightarrow> Some ((r', c') # qs))))"

definition mark :: "nat \<times> nat \<Rightarrow> int list list \<Rightarrow> int list list" where
  "mark rc g = g[fst rc := (g ! fst rc)[snd rc := 1]]"

definition sum_grid :: "int list list \<Rightarrow> int" where
  "sum_grid g = sum_list (map sum_list g)"

text \<open>
  \<^verbatim>\<open>rows, cols = zip(*self.pos_map)\<close> raises ValueError when there is no cell:
  the zip of nothing yields nothing to unpack. With at least one cell it yields
  the first and the second coordinates.
\<close>

definition get_grid :: "'f environment \<Rightarrow> error + 'f environment" where
  "get_grid e =
     (let g0 = replicate (size_e e) (replicate (size_e e) 0);
          pm = map (\<lambda>c. (py_int (fst (pos c)), py_int (snd (pos c)))) (cells e)
      in if pm = [] then Inl ValueError
         else case index_pairs (size_e e) pm of
                None \<Rightarrow> Inl IndexError
              | Some ps \<Rightarrow> Inr (e\<lparr>grid := fold mark ps g0, pos_map := PosList pm\<rparr>))"

text \<open>An occupancy grid: \<open>n\<close> rows of \<open>n\<close> entries, each 0 or 1.\<close>

definition grid_ok :: "nat \<Rightarrow> int list list \<Rightarrow> bool" where
  "grid_ok n g \<longleftrightarrow> length g = n \<and> (\<forall>row \<in> set g. length row = n \<and> (\<forall>v \<in> set row. v = 0 \<or> v = 1))"

section \<open>Simulation\<close>

text \<open>
  The two registries are the lists of (name, function) pairs that
  \<^verbatim>\<open>inspect.getmembers\<close> returns for the modules \<^verbatim>\<open>rules.sim_rules\<close> and
  \<^verbatim>\<open>rules.cell_rules\<close>; they are parameters, and so is \<open>ap\<close>, the effect of
  calling a simulation rule on an environment.
\<close>

record 'f simulation =
  simrule :: "string \<times> 'f"
  sim_e :: "'f environment"

fun join_names :: "string list \<Rightarrow> string" where
  "join_names [] = []"
| "join_names [n] = n"
| "join_names (n # m # ns) = n @ '', '' @ join_names (m # ns)"

definition simrule_message :: "string \<Rightarrow> string list \<Rightarrow> string" where
  "simrule_message w names =
     w @ '' is not a valid simulation ruleset. ['' @ join_names names @ '']''"

definition cellrule_message :: "string \<Rightarrow> string list \<Rightarrow> string" where
  "cellrule_message w names =
     w @ '' is not a valid cell ruleset. ['' @ join_names names @ '']''"

text \<open>
  The loop over the cells reads \<^verbatim>\<open>self.cellrule\<close>, an attribute the constructor
  never sets (the lookup result is in the local variable \<^verbatim>\<open>cellrule\<close>): with a
  cell to visit, the first pass raises AttributeError before \<^verbatim>\<open>setattr\<close> runs.
\<close>

definition Simulation_init ::
  "params \<Rightarrow> (nat \<Rightarrow> seed) \<Rightarrow> (string \<times> 'f) list \<Rightarrow> (string \<times> 'f) list \<Rightarrow> string \<Rightarrow> string
     \<Rightarrow> error + 'f simulation"
where
  "Simulation_init p seeds simrules cellrules wsimrule wcellrule =
     (case find (\<lambda>r. fst r = wsimrule) simrules of
        None \<Rightarrow> Inl (AttributeError (simrule_message wsimrule (map fst simrules)))
      | Some sr \<Rightarrow>
          (let e0 = Environment_init p seeds;
               e1 = e0\<lparr>attrs := AList.update (fst sr) (snd sr) (attrs e0)\<rparr>
           in case find (\<lambda>r. fst r = wcellrule) cellrules of
                None \<Rightarrow> Inl (AttributeError (cellrule_message wcellrule (map fst cellrules)))
              | Some cr \<Rightarrow>
                  if cells e1 \<noteq> [] then
                    Inl (AttributeError
                          (quoted ''Simulation'' @ '' object has no attribute '' @ quoted ''cellrule''))
                  else Inr \<lparr> simrule = sr,
                             sim_e = e1\<lparr>cellrule := RTuple (fst cr) (snd cr)\<rparr> \<rparr>))"

text \<open>
  \<^verbatim>\<open>getattr(self.e, name)(self.e)\<close>: a name bound by \<^verbatim>\<open>setattr\<close> yields its
  function, called on the environment; any other name yields a method, a data
  attribute or the callback of \<^verbatim>\<open>Environment.__getattr__\<close>, each of which
  raises TypeError on this call.
\<close>

definition call_simrule ::
  "('f \<Rightarrow> 'f environment \<Rightarrow> error + 'f environment) \<Rightarrow> string \<Rightarrow> 'f environment
     \<Rightarrow> error + 'f environment"
where
  "call_simrule ap n e = (case map_of (attrs e) n of Some f \<Rightarrow> ap f e | None \<Rightarrow> Inl TypeError)"

text \<open>What the run writes: the two prints and the plot of the grid with its clock.\<close>

datatype event = PrintIteration nat | PrintDead | ShowGrid int "int list list"

text \<open>The body of the \<^verbatim>\<open>try\<close> block.\<close>

definition iteration ::
  "('f \<Rightarrow> 'f environment \<Rightarrow> error + 'f environment) \<Rightarrow> string \<Rightarrow> 'f environment
     \<Rightarrow> error + 'f environment"
where
  "iteration ap n e = (case call_simrule ap n e of Inl err \<Rightarrow> Inl err | Inr e1 \<Rightarrow> get_grid e1)"

fun main_loop ::
  "('f \<Rightarrow> 'f environment \<Rightarrow> error + 'f environment) \<Rightarrow> string \<Rightarrow> nat list \<Rightarrow> 'f environment
     \<Rightarrow> event list \<Rightarrow> error + event list"
where
  "main_loop ap n [] e out = Inr out"
| "main_loop ap n (i # is) e out =
     (case iteration ap n e of
        Inl ValueError \<Rightarrow> Inr (out @ [PrintIteration i, PrintDead])
      | Inl err \<Rightarrow> Inl err
      | Inr e2 \<Rightarrow> main_loop ap n is e2 (out @ [PrintIteration i, ShowGrid (clock e2) (grid e2)]))"

text \<open>\<^verbatim>\<open>main\<close> returns 0 after the loop, however the loop ended.\<close>

definition main ::
  "params \<Rightarrow> ('f \<Rightarrow> 'f environment \<Rightarrow> error + 'f environment) \<Rightarrow> 'f simulation
     \<Rightarrow> error + (int \<times> event list)"
where
  "main p ap s =
     (case main_loop ap (fst (simrule s)) [0..<p_num_sim p] (sim_e s) [] of
        Inl err \<Rightarrow> Inl err
      | Inr out \<Rightarrow> Inr (0, out))"

section \<open>Example inputs\<close>

definition params0 :: params where
  "params0 =
     \<lparr> p_grid_size = 5, p_n_cell = 1, p_num_sim = 2, p_num_sensors = 5, p_num_actions = 4,
       mean_death = 3, mean_sex = 0, mean_strength = 1, mean_velocity = 1,
       std_death = 1, std_sex = 1, std_strength = 1, std_velocity = 1 \<rparr>"

definition seed0 :: seed where
  "seed0 = \<lparr> z_phys = (\<lambda>_. 0), z_brain = (\<lambda>_ _. 0), u_pos = (\<lambda>_. 2) \<rparr>"

definition cell0 :: cell where
  "cell0 =
     \<lparr> grid_size = 5, alive = True, age = 0, phys_dna = [3, 0, 1, 1],
       brain_dna = \<lparr>ncols = 5, mrows = replicate 4 (replicate 5 0)\<rparr>,
       death_age = 3, sex = 0, strength = 1, velocity = 1, pos = (2, 2),
       sensors = replicate 5 0, actions = replicate 4 0 \<rparr>"

definition cell1 :: cell where
  "cell1 = cell0\<lparr>brain_dna := \<lparr>ncols = 5,
                                 mrows = [[1, 0, 0, 0, 0], [- 1, 0, 0, 0, 0],
                                          [0, 0, 0, 0, 0], [0, 1, 0, 0, 0]]\<rparr>,
                  sensors := [1, 1 / 2, 0, 2 / 5, 2 / 5]\<rparr>"

definition env_empty :: "unit environment" where
  "env_empty = Environment_init (params0\<lparr>p_n_cell := 0\<rparr>) (\<lambda>_. seed0)"

definition env1 :: "unit environment" where
  "env1 = (Environment_init params0 (\<lambda>_. seed0))\<lparr>cellrule := RName ''live''\<rparr>"

definition registry0 :: "(string \<times> unit) list" where
  "registry0 = [(''default'', ())]"

definition sim0 :: "unit simulation" where
  "sim0 = \<lparr> simrule = (''default'', ()),
            sim_e = env_empty\<lparr>cellrule := RTuple ''default'' (), attrs := [(''default'', ())]\<rparr> \<rparr>"

definition sim1 :: "unit simulation" where
  "sim1 = \<lparr> simrule = (''default'', ()), sim_e = env1\<lparr>attrs := [(''default'', ())]\<rparr> \<rparr>"

section \<open>Properties of the cell\<close>

lemma np_round_of_int: "np_round (of_int k) = of_int k"
  by (simp add: np_round_def)

lemma np_round_numerals: "np_round 0 = 0" "np_round 1 = 1" "np_round 2 = 2"
  using np_round_of_int [of 0] np_round_of_int [of 1] np_round_of_int [of 2] by simp_all

lemma upt_0_4: "[0..<4] = [0, 1, 2, 3]"
  by (simp add: upt_rec)

lemma upt_0_5: "[0..<5] = [0, 1, 2, 3, 4]"
  by (simp add: upt_rec)

lemma Cell_init_example: "Cell_init params0 seed0 = cell0"
  by (simp add: Cell_init_def params0_def seed0_def cell0_def mean_physics_def std_physics_def
      upt_0_4 upt_0_5 np_round_numerals numeral_eq_Suc)

lemma Cell_init_shape:
  "length (mrows (brain_dna (Cell_init p sd))) = p_num_actions p"
  "ncols (brain_dna (Cell_init p sd)) = p_num_sensors p"
  "length (sensors (Cell_init p sd)) = p_num_sensors p"
  "length (actions (Cell_init p sd)) = p_num_actions p"
  "alive (Cell_init p sd)" "age (Cell_init p sd) = 0"
  by (simp_all add: Cell_init_def Let_def)

text \<open>
  C4. With the four action channels the formula names and a grid of at least one
  square, \<open>move\<close> sets the position to the current position plus velocity times
  \<open>(actions[0] - actions[2], actions[1] - actions[3])\<close>, each axis clamped on its
  own, and both coordinates then lie in \<open>[0, grid_size - 1]\<close>.
\<close>

theorem move_clamped:
  assumes "4 \<le> length (actions c)" and "0 < grid_size c"
  shows "\<exists>c'. move c = Inr c' \<and>
           pos c' = (max (min (fst (pos c) + velocity c * (actions c ! 0 - actions c ! 2))
                              (of_nat (grid_size c) - 1)) 0,
                     max (min (snd (pos c) + velocity c * (actions c ! 1 - actions c ! 3))
                              (of_nat (grid_size c) - 1)) 0) \<and>
           0 \<le> fst (pos c') \<and> fst (pos c') \<le> of_nat (grid_size c') - 1 \<and>
           0 \<le> snd (pos c') \<and> snd (pos c') \<le> of_nat (grid_size c') - 1"
  using assms by (simp add: move_def Let_def clamp_axis_def mult.commute)

theorem move_clamped_witness:
  "4 \<le> length (actions cell0) \<and> 0 < grid_size cell0 \<and>
   (\<exists>c'. move cell0 = Inr c' \<and> pos c' = (2, 2) \<and>
      0 \<le> fst (pos c') \<and> fst (pos c') \<le> of_nat (grid_size c') - 1 \<and>
      0 \<le> snd (pos c') \<and> snd (pos c') \<le> of_nat (grid_size c') - 1)"
  using move_clamped [of cell0] by (simp add: cell0_def)

lemma move_fields: "move c = Inr c' \<Longrightarrow> c' = c\<lparr>pos := pos c'\<rparr>"
  by (auto simp: move_def Let_def split: if_splits)

lemma think_fields: "think c = Inr c' \<Longrightarrow> c' = c\<lparr>actions := actions c'\<rparr>"
  by (auto simp: think_def split: if_splits)

lemma live_step:
  assumes "live clk pm r c = Inr c'"
  shows "age c' = age c + 1" and "death_age c' = death_age c"
    and "alive c' \<longleftrightarrow> alive c \<and> of_int (age c') < death_age c"
    and "brain_dna c' = brain_dna c"
    and "length (actions c') = length (mrows (brain_dna c))"
proof -
  from assms obtain c1 c3 where m: "move c = Inr c1"
    and t: "think (update_sensors clk pm r c1) = Inr c3"
    and c': "c' = (if death_age c3 \<le> of_int (age c3 + 1) then c3\<lparr>age := age c3 + 1, alive := False\<rparr>
                   else c3\<lparr>age := age c3 + 1\<rparr>)"
    by (auto simp: live_def Let_def split: sum.splits if_splits)
  from move_fields [OF m] have c1: "c1 = c\<lparr>pos := pos c1\<rparr>" .
  from think_fields [OF t] have c3: "c3 = (update_sensors clk pm r c1)\<lparr>actions := actions c3\<rparr>" .
  have a3: "age c3 = age c" "death_age c3 = death_age c" "alive c3 = alive c"
    "brain_dna c3 = brain_dna c"
    by (subst c3, subst c1, simp add: update_sensors_def)+
  have l3: "length (actions c3) = length (mrows (brain_dna c))"
  proof -
    have "brain_dna c1 = brain_dna c"
      by (subst c1) simp
    moreover have "length (actions c3) = length (mrows (brain_dna c1))"
      using t by (auto simp: think_def update_sensors_def split: if_splits)
    ultimately show ?thesis by simp
  qed
  show "age c' = age c + 1" using c' a3 by simp
  show "death_age c' = death_age c" using c' a3 by simp
  show "alive c' \<longleftrightarrow> alive c \<and> of_int (age c') < death_age c" using c' a3 by auto
  show "brain_dna c' = brain_dna c" using c' a3 by simp
  show "length (actions c') = length (mrows (brain_dna c))" using c' l3 by simp
qed

lemma move_total: "3 \<le> length (actions c) \<Longrightarrow> \<exists>c'. move c = Inr c'"
  by (auto simp: move_def Let_def)

lemma live_total:
  assumes "ncols (brain_dna c) = 5" and "3 \<le> length (actions c)"
  shows "\<exists>c'. live clk pm r c = Inr c'"
proof -
  from move_total [OF assms(2)] obtain c1 where m: "move c = Inr c1" by blast
  from move_fields [OF m] have c1: "c1 = c\<lparr>pos := pos c1\<rparr>" .
  have "brain_dna c1 = brain_dna c"
    by (subst c1) simp
  then have "\<exists>c3. think (update_sensors clk pm r c1) = Inr c3"
    using assms(1) by (simp add: think_def update_sensors_def)
  then show ?thesis
    using m by (auto simp: live_def Let_def)
qed

lemma live_steps_append:
  "live_steps (xs @ ys) c =
     (case live_steps xs c of Inl err \<Rightarrow> Inl err | Inr c1 \<Rightarrow> live_steps ys c1)"
  by (induction xs arbitrary: c) (auto split: sum.splits)

lemma live_steps_inv:
  "live_steps xs c = Inr c' \<Longrightarrow>
     age c' = age c + int (length xs) \<and> death_age c' = death_age c \<and>
     brain_dna c' = brain_dna c \<and>
     (xs \<noteq> [] \<longrightarrow> length (actions c') = length (mrows (brain_dna c)))"
proof (induction xs arbitrary: c' rule: rev_induct)
  case Nil
  then show ?case by simp
next
  case (snoc x xs)
  obtain clk pm r where x: "x = (clk, pm, r)"
    by (cases x) auto
  from snoc.prems x obtain c1 where s: "live_steps xs c = Inr c1" and l: "live clk pm r c1 = Inr c'"
    by (auto simp: live_steps_append split: sum.splits)
  from snoc.IH [OF s] live_step [OF l] show ?case
    by simp
qed

lemma live_steps_total:
  assumes "ncols (brain_dna c) = 5" and "3 \<le> length (actions c)"
    and "3 \<le> length (mrows (brain_dna c))"
  shows "\<exists>c'. live_steps xs c = Inr c'"
proof (induction xs rule: rev_induct)
  case Nil
  then show ?case by simp
next
  case (snoc x xs)
  obtain clk pm r where x: "x = (clk, pm, r)"
    by (cases x) auto
  from snoc obtain c1 where s: "live_steps xs c = Inr c1"
    by blast
  from live_steps_inv [OF s] assms have "ncols (brain_dna c1) = 5" "3 \<le> length (actions c1)"
    using s by (cases "xs = []"; simp)+
  from live_total [OF this] obtain c2 where "live clk pm r c1 = Inr c2"
    by blast
  then show ?case
    using s x by (simp add: live_steps_append)
qed

text \<open>
  C5. A new cell is alive with age 0. For a cell on which the steps run (five
  weight columns, at least three actions and weight rows), any sequence of
  \<open>live\<close> steps returns, with the age raised by the number of steps; each
  single step raises the age by exactly 1, keeps \<open>death_age\<close>, and leaves the
  cell alive exactly when it was alive and the new age is below \<open>death_age\<close>:
  \<open>alive\<close> turns false exactly when the incremented age reaches \<open>death_age\<close>
  and never turns true again.
\<close>

theorem live_age_alive:
  assumes "ncols (brain_dna c) = 5" and "3 \<le> length (actions c)"
    and "3 \<le> length (mrows (brain_dna c))"
  shows "alive (Cell_init p sd) \<and> age (Cell_init p sd) = 0 \<and>
         (\<exists>c'. live_steps xs c = Inr c' \<and> age c' = age c + int (length xs)) \<and>
         (\<forall>k < length xs. \<exists>ck ck1.
            live_steps (take k xs) c = Inr ck \<and> live_steps (take (Suc k) xs) c = Inr ck1 \<and>
            age ck1 = age ck + 1 \<and> death_age ck1 = death_age ck \<and>
            (alive ck1 \<longleftrightarrow> alive ck \<and> of_int (age ck1) < death_age ck))"
proof -
  have init: "alive (Cell_init p sd) \<and> age (Cell_init p sd) = 0"
    by (simp add: Cell_init_def Let_def)
  from live_steps_total [OF assms] obtain c' where s: "live_steps xs c = Inr c'"
    by blast
  have whole: "\<exists>c'. live_steps xs c = Inr c' \<and> age c' = age c + int (length xs)"
    using s live_steps_inv [OF s] by simp
  have steps: "\<exists>ck ck1.
            live_steps (take k xs) c = Inr ck \<and> live_steps (take (Suc k) xs) c = Inr ck1 \<and>
            age ck1 = age ck + 1 \<and> death_age ck1 = death_age ck \<and>
            (alive ck1 \<longleftrightarrow> alive ck \<and> of_int (age ck1) < death_age ck)" if k: "k < length xs" for k
  proof -
    obtain clk pm r where x: "xs ! k = (clk, pm, r)"
      by (cases "xs ! k") auto
    have tk: "take (Suc k) xs = take k xs @ [(clk, pm, r)]"
      using k x by (simp add: take_Suc_conv_app_nth)
    from live_steps_total [OF assms] obtain ck1 where s1: "live_steps (take (Suc k) xs) c = Inr ck1"
      by blast
    then obtain ck where s0: "live_steps (take k xs) c = Inr ck" and l: "live clk pm r ck = Inr ck1"
      by (auto simp: tk live_steps_append split: sum.splits)
    from live_step [OF l] s0 s1 show ?thesis
      by auto
  qed
  from init whole steps show ?thesis
    by blast
qed

theorem live_age_alive_witness:
  "ncols (brain_dna cell0) = 5 \<and> 3 \<le> length (actions cell0) \<and>
   3 \<le> length (mrows (brain_dna cell0)) \<and>
   (\<exists>c'. live_steps [(0, PosInt 0, 0), (1, PosInt 0, 0)] cell0 = Inr c' \<and> age c' = 2)"
proof -
  have h: "ncols (brain_dna cell0) = 5" "3 \<le> length (actions cell0)"
    "3 \<le> length (mrows (brain_dna cell0))"
    by (simp_all add: cell0_def)
  have a: "age cell0 = 0"
    by (simp add: cell0_def)
  from live_age_alive [OF h, of _ _ "[(0, PosInt 0, 0), (1, PosInt 0, 0)]"] a h show ?thesis
    by auto
qed

text \<open>
  C7, as stated, fails: with \<open>num_sensors = 3\<close> the sensor vector of a cell still
  has five entries.
\<close>

theorem update_sensors_length_counterexample:
  "length (sensors (update_sensors 0 (PosInt 0) 0 (Cell_init (params0\<lparr>p_num_sensors := 3\<rparr>) seed0)))
     \<noteq> p_num_sensors (params0\<lparr>p_num_sensors := 3\<rparr>)"
  by (simp add: update_sensors_def params0_def)

text \<open>
  C7, amended. For every cell on a grid of at least one square, every clock
  value, position map and draw \<open>r\<close>, \<open>update_sensors\<close> sets the sensors to
  \<open>[1, r, sin(pi * clock / 10), pos.x / grid_size, pos.y / grid_size]\<close>, a
  vector of length 5 whatever \<open>num_sensors\<close> is: its length is \<open>num_sensors\<close>
  exactly when \<open>num_sensors = 5\<close>.
\<close>

theorem update_sensors_vector:
  assumes "0 < grid_size c"
  shows "sensors (update_sensors clk pm r c) =
           [1, r, sin (pi * of_int clk / 10),
            fst (pos c) / of_nat (grid_size c), snd (pos c) / of_nat (grid_size c)] \<and>
         length (sensors (update_sensors clk pm r c)) = 5 \<and>
         (length (sensors (update_sensors clk pm r (Cell_init p sd))) = p_num_sensors p
            \<longleftrightarrow> p_num_sensors p = 5)"
  by (auto simp: update_sensors_def)

theorem update_sensors_vector_witness:
  "0 < grid_size cell0 \<and>
   sensors (update_sensors 0 (PosInt 0) (1 / 2) cell0) = [1, 1 / 2, 0, 2 / 5, 2 / 5] \<and>
   length (sensors (update_sensors 0 (PosInt 0) (1 / 2) cell0)) = 5"
proof -
  have h: "0 < grid_size cell0"
    by (simp add: cell0_def)
  from update_sensors_vector [OF h, of 0 "PosInt 0" "1 / 2"] h show ?thesis
    by (simp add: cell0_def)
qed

lemma sigmoid_range: "0 < sigmoid x \<and> sigmoid x < 1"
  by (simp add: sigmoid_def add_pos_pos)

lemma np_round_sigmoid: "np_round (sigmoid x) = 0 \<or> np_round (sigmoid x) = 1"
proof -
  have "0 < sigmoid x" "sigmoid x < 1"
    using sigmoid_range by simp_all
  then have "\<lfloor>sigmoid x\<rfloor> = 0" by linarith
  then show ?thesis by (simp add: np_round_def Let_def)
qed

lemma sigmoid_half: "1 / 2 < sigmoid x \<longleftrightarrow> 0 < x"
proof -
  have "1 / 2 < sigmoid x \<longleftrightarrow> 1 + exp (- x) < 2"
    by (simp add: sigmoid_def field_simps add_pos_pos)
  also have "\<dots> \<longleftrightarrow> exp (- x) < exp 0"
    by simp
  also have "\<dots> \<longleftrightarrow> 0 < x"
    by (simp only: exp_less_cancel_iff) simp
  finally show ?thesis .
qed

lemma np_round_sigmoid_sign: "np_round (sigmoid x) = (if 0 < x then 1 else 0)"
proof -
  have "0 < sigmoid x" "sigmoid x < 1"
    using sigmoid_range by simp_all
  then have f: "\<lfloor>sigmoid x\<rfloor> = 0" by linarith
  show ?thesis
    using sigmoid_half [of x] by (auto simp: np_round_def Let_def f)
qed

lemma dot_sum:
  assumes "length xs = length ys"
  shows "dot xs ys = (\<Sum>j < length ys. xs ! j * ys ! j)"
proof -
  have "dot xs ys = (\<Sum>j = 0..<length (map2 (*) xs ys). map2 (*) xs ys ! j)"
    unfolding dot_def by (rule sum_list_sum_nth)
  also have "\<dots> = (\<Sum>j = 0..<length ys. xs ! j * ys ! j)"
    using assms by (intro sum.cong) auto
  finally show ?thesis
    by (simp add: atLeast0LessThan)
qed

text \<open>
  C6. For every cell whose weight matrix has one column per sensor entry, and
  for any real values in both, \<open>think\<close> changes the actions only: entry \<open>k\<close>
  is the rounded logistic \<open>round(1 / (1 + exp(-x)))\<close> of the product \<open>x\<close> of
  row \<open>k\<close> of the matrix with the sensor vector, which is 1 when \<open>x\<close> is
  positive and 0 otherwise. There is one entry per row of the matrix
  (\<open>num_actions\<close> rows), each exactly 0 or 1.
\<close>

theorem think_binary:
  assumes shape: "ncols (brain_dna c) = length (sensors c)"
    and rows: "\<forall>row \<in> set (mrows (brain_dna c)). length row = ncols (brain_dna c)"
  shows "\<exists>c'. think c = Inr c' \<and> c' = c\<lparr>actions := actions c'\<rparr> \<and>
           length (actions c') = length (mrows (brain_dna c)) \<and>
           (\<forall>k < length (mrows (brain_dna c)).
              actions c' ! k =
                np_round (1 / (1 + exp (- (\<Sum>j < length (sensors c).
                                              mrows (brain_dna c) ! k ! j * sensors c ! j)))) \<and>
              actions c' ! k =
                (if 0 < (\<Sum>j < length (sensors c). mrows (brain_dna c) ! k ! j * sensors c ! j)
                 then 1 else 0)) \<and>
           (\<forall>a \<in> set (actions c'). a = 0 \<or> a = 1)"
proof -
  let ?a = "map (\<lambda>row. np_round (sigmoid (dot row (sensors c)))) (mrows (brain_dna c))"
  have t: "think c = Inr (c\<lparr>actions := ?a\<rparr>)"
    using shape by (simp add: think_def)
  have each: "?a ! k = np_round (1 / (1 + exp (- (\<Sum>j < length (sensors c).
                                              mrows (brain_dna c) ! k ! j * sensors c ! j)))) \<and>
      ?a ! k = (if 0 < (\<Sum>j < length (sensors c). mrows (brain_dna c) ! k ! j * sensors c ! j)
                 then 1 else 0)"
    if k: "k < length (mrows (brain_dna c))" for k
  proof -
    have "length (mrows (brain_dna c) ! k) = length (sensors c)"
      using rows shape k by simp
    from dot_sum [OF this]
    have d: "dot (mrows (brain_dna c) ! k) (sensors c)
        = (\<Sum>j < length (sensors c). mrows (brain_dna c) ! k ! j * sensors c ! j)" .
    have "?a ! k = np_round (sigmoid (dot (mrows (brain_dna c) ! k) (sensors c)))"
      using k by simp
    then show ?thesis
      using np_round_sigmoid_sign [of "dot (mrows (brain_dna c) ! k) (sensors c)"]
      by (simp add: d sigmoid_def)
  qed
  have bin: "\<forall>a \<in> set ?a. a = 0 \<or> a = 1"
    using np_round_sigmoid by auto
  let ?c' = "c\<lparr>actions := ?a\<rparr>"
  have a: "actions ?c' = ?a"
    by simp
  have "think c = Inr ?c'"
    by (rule t)
  moreover have "?c' = c\<lparr>actions := actions ?c'\<rparr>"
    by simp
  moreover have "length (actions ?c') = length (mrows (brain_dna c))"
    by simp
  moreover have "\<forall>k < length (mrows (brain_dna c)).
              actions ?c' ! k =
                np_round (1 / (1 + exp (- (\<Sum>j < length (sensors c).
                                              mrows (brain_dna c) ! k ! j * sensors c ! j)))) \<and>
              actions ?c' ! k =
                (if 0 < (\<Sum>j < length (sensors c). mrows (brain_dna c) ! k ! j * sensors c ! j)
                 then 1 else 0)"
    unfolding a using each by blast
  moreover have "\<forall>a \<in> set (actions ?c'). a = 0 \<or> a = 1"
    unfolding a by (rule bin)
  ultimately show ?thesis
    by blast
qed

theorem think_binary_witness:
  "ncols (brain_dna cell1) = length (sensors cell1) \<and>
   mrows (brain_dna cell1) = [[1, 0, 0, 0, 0], [- 1, 0, 0, 0, 0], [0, 0, 0, 0, 0], [0, 1, 0, 0, 0]] \<and>
   sensors cell1 = [1, 1 / 2, 0, 2 / 5, 2 / 5] \<and>
   (\<exists>c'. think cell1 = Inr c' \<and> length (actions c') = 4 \<and>
      actions c' ! 0 = 1 \<and> actions c' ! 1 = 0 \<and> actions c' ! 2 = 0 \<and> actions c' ! 3 = 1)"
proof -
  have h1: "ncols (brain_dna cell1) = length (sensors cell1)"
    by (simp add: cell1_def)
  have m: "mrows (brain_dna cell1) = [[1, 0, 0, 0, 0], [- 1, 0, 0, 0, 0], [0, 0, 0, 0, 0], [0, 1, 0, 0, 0]]"
    and s: "sensors cell1 = [1, 1 / 2, 0, 2 / 5, 2 / 5]"
    by (simp_all add: cell1_def)
  have h2: "\<forall>row \<in> set (mrows (brain_dna cell1)). length row = ncols (brain_dna cell1)"
    by (simp add: cell1_def)
  from think_binary [OF h1 h2] obtain c' where t: "think cell1 = Inr c'"
    and l: "length (actions c') = length (mrows (brain_dna cell1))"
    and v: "\<forall>k < length (mrows (brain_dna cell1)). actions c' ! k =
                (if 0 < (\<Sum>j < length (sensors cell1). mrows (brain_dna cell1) ! k ! j * sensors cell1 ! j)
                 then 1 else 0)"
    by blast
  have five: "{..<5::nat} = {0, 1, 2, 3, 4}"
    by auto
  have "actions c' ! 0 = 1" "actions c' ! 1 = 0" "actions c' ! 2 = 0" "actions c' ! 3 = 1"
    using v by (simp_all add: m s five)
  then show ?thesis
    using h1 m s t l by simp
qed

section \<open>Properties of the environment\<close>

lemma env_empty_cells: "cells env_empty = []"
  by (simp add: env_empty_def Environment_init_def params0_def)

lemma env1_cells: "cells env1 = [cell0]"
  using Cell_init_example
  by (simp add: env1_def Environment_init_def) (simp add: params0_def)

text \<open>
  C3. On an environment with no live cell \<open>update\<close> returns the "ended" value 0
  and the environment as it was: clock, cells and every other attribute are
  unchanged, and no operation has run on any cell.
\<close>

theorem update_empty:
  assumes "cells e = []"
  shows "update rnd e = Inr (0, e)"
  using assms by (simp add: update_def)

theorem update_empty_witness:
  "cells env_empty = [] \<and> update (\<lambda>_. 0) env_empty = Inr (0, env_empty)"
  using update_empty [of env_empty "\<lambda>_. 0"] env_empty_cells by simp

lemma invoke_all_Inr:
  "invoke_all a args rnd k cs = Inr cs' \<longleftrightarrow>
     length cs' = length cs \<and>
     (\<forall>i < length cs. invoke a args (rnd (k + i)) (cs ! i) = Inr (cs' ! i))"
proof (induction cs arbitrary: k cs')
  case Nil
  then show ?case by auto
next
  case (Cons c cs)
  show ?case
  proof (cases cs')
    case Nil
    then show ?thesis by (auto split: sum.splits)
  next
    case (Cons d ds)
    have "(\<forall>i < Suc (length cs). invoke a args (rnd (k + i)) ((c # cs) ! i) = Inr ((d # ds) ! i))
          \<longleftrightarrow> invoke a args (rnd k) c = Inr d \<and>
              (\<forall>i < length cs. invoke a args (rnd (Suc k + i)) (cs ! i) = Inr (ds ! i))"
      by (auto simp: less_Suc_eq_0_disj)
    then show ?thesis
      using Cons Cons.IH [of "Suc k" ds] by (auto split: sum.splits)
  qed
qed

lemma invoke_all_total:
  assumes "\<forall>i < length cs. \<exists>c'. invoke a args (rnd (k + i)) (cs ! i) = Inr c'"
  shows "\<exists>cs'. invoke_all a args rnd k cs = Inr cs'"
proof -
  from assms obtain f where f: "\<forall>i < length cs. invoke a args (rnd (k + i)) (cs ! i) = Inr (f i)"
    by metis
  then have "invoke_all a args rnd k cs = Inr (map f [0..<length cs])"
    by (simp add: invoke_all_Inr)
  then show ?thesis by blast
qed


lemma live_sensors:
  assumes "live clk pm r c = Inr c'"
  shows "length (sensors c') = 5"
proof -
  from assms obtain c1 c3 where t: "think (update_sensors clk pm r c1) = Inr c3"
    and c': "c' = (if death_age c3 \<le> of_int (age c3 + 1) then c3\<lparr>age := age c3 + 1, alive := False\<rparr>
                   else c3\<lparr>age := age c3 + 1\<rparr>)"
    by (auto simp: live_def Let_def split: sum.splits if_splits)
  from think_fields [OF t] have c3: "c3 = (update_sensors clk pm r c1)\<lparr>actions := actions c3\<rparr>" .
  have "length (sensors c3) = 5"
    by (subst c3) (simp add: update_sensors_def)
  then show ?thesis using c' by simp
qed

lemma rule_then_think:
  assumes m: "m = Live \<or> m = UpdateSensors"
    and shape: "ncols (brain_dna c) = 5 \<and> (m = Live \<longrightarrow> 3 \<le> length (actions c))"
  shows "\<exists>c1 c2. invoke (Method m) (Some (clk, pm)) r c = Inr c1 \<and> think c1 = Inr c2"
proof -
  from m show ?thesis
  proof
    assume l: "m = Live"
    with shape live_total [of c clk pm r] obtain c1 where c1: "live clk pm r c = Inr c1"
      by auto
    from live_step(4) [OF c1] live_sensors [OF c1] shape
    have "ncols (brain_dna c1) = length (sensors c1)" by simp
    then show ?thesis
      using l c1 by (simp add: think_def)
  next
    assume u: "m = UpdateSensors"
    have "ncols (brain_dna (update_sensors clk pm r c)) = length (sensors (update_sensors clk pm r c))"
      using shape by (simp add: update_sensors_def)
    then show ?thesis
      using u by (simp add: think_def)
  qed
qed

lemma getattr_cell_tuple: "getattr_cell (format_attr (RTuple n f)) = None"
  by (simp add: getattr_cell_def cell_data_attrs_def)

lemma update_fresh:
  "0 < p_n_cell p \<Longrightarrow>
     update rnd (Environment_init p seeds)
       = Inl (AttributeError (quoted ''Cell'' @ '' object has no attribute '' @ quoted ''default''))"
  by (simp add: update_def call_all_def getattr_cell_def cell_data_attrs_def Environment_init_def)

lemma update_tuple:
  "cells e \<noteq> [] \<Longrightarrow> cellrule e = RTuple n f \<Longrightarrow>
     update rnd e
       = Inl (AttributeError (quoted ''Cell'' @ '' object has no attribute ''
                                @ quoted (format_attr (RTuple n f))))"
  using getattr_cell_tuple [of n f] by (simp add: update_def call_all_def)

lemma Simulation_init_no_cells:
  "Simulation_init p seeds simrules cellrules w wc = Inr s \<Longrightarrow>
     cells (sim_e s) = [] \<and> update rnd (sim_e s) = Inr (0, sim_e s)"
  by (auto simp: Simulation_init_def Let_def update_def split: option.splits if_splits)

text \<open>
  C2 does not hold of the code. The environment that \<^verbatim>\<open>Environment()\<close> builds
  with one cell names the rule \<^verbatim>\<open>"default"\<close>, which no cell has, and \<open>update\<close>
  raises AttributeError instead of returning the "continue" value; with the
  (name, function) pair that \<^verbatim>\<open>Simulation()\<close> stores in \<^verbatim>\<open>cellrule\<close> it raises
  as well, the printed pair being no attribute either.
\<close>

theorem update_constructed_fails:
  "cells (Environment_init params0 (\<lambda>_. seed0) :: unit environment) \<noteq> [] \<and>
   update (\<lambda>_. 0) (Environment_init params0 (\<lambda>_. seed0) :: unit environment)
     = Inl (AttributeError (quoted ''Cell'' @ '' object has no attribute '' @ quoted ''default'')) \<and>
   update (\<lambda>_. 0) ((Environment_init params0 (\<lambda>_. seed0) :: unit environment)
                      \<lparr>cellrule := RTuple ''default'' ()\<rparr>)
     = Inl (AttributeError (quoted ''Cell'' @ '' object has no attribute ''
                              @ quoted (format_attr (RTuple ''default'' ()))))"
  by (simp add: update_def call_all_def getattr_cell_def cell_data_attrs_def
      Environment_init_def params0_def)

text \<open>
  What the body of \<open>update\<close> does once the rule name resolves on the cells to
  the compound step or to the sensor update: the rule runs on every cell with
  the clock and position map of the start, the clock goes up by 1, \<open>think\<close>
  runs on every cell, the cells that are alive are kept, and 1 is returned. No
  constructor of the program builds such an environment.
\<close>

lemma update_nonempty:
  assumes ne: "cells e \<noteq> []"
    and res: "getattr_cell (format_attr (cellrule e)) = Some (Method m)"
    and m: "m = Live \<or> m = UpdateSensors"
    and shape: "\<forall>c \<in> set (cells e). ncols (brain_dna c) = 5 \<and> (m = Live \<longrightarrow> 3 \<le> length (actions c))"
  shows "\<exists>cs1 cs2. length cs1 = length (cells e) \<and> length cs2 = length (cells e) \<and>
     (\<forall>i < length (cells e).
        invoke (Method m) (Some (clock e, pos_map e)) (rnd i) (cells e ! i) = Inr (cs1 ! i) \<and>
        invoke (Method Think) None (rnd i) (cs1 ! i) = Inr (cs2 ! i)) \<and>
     update rnd e = Inr (1, e\<lparr>clock := clock e + 1, cells := filter alive cs2\<rparr>)"
proof -
  let ?args = "Some (clock e, pos_map e)"
  have each: "\<exists>c1 c2. invoke (Method m) ?args (rnd i) (cells e ! i) = Inr c1 \<and> think c1 = Inr c2"
    if "i < length (cells e)" for i
    using rule_then_think [OF m, of "cells e ! i"] shape that by simp
  then obtain f g where fg: "\<forall>i < length (cells e).
      invoke (Method m) ?args (rnd i) (cells e ! i) = Inr (f i) \<and> think (f i) = Inr (g i)"
    by metis
  define cs1 where "cs1 = map f [0..<length (cells e)]"
  define cs2 where "cs2 = map g [0..<length (cells e)]"
  have l: "length cs1 = length (cells e)" "length cs2 = length (cells e)"
    by (simp_all add: cs1_def cs2_def)
  have a1: "invoke_all (Method m) ?args rnd 0 (cells e) = Inr cs1"
    using fg by (simp add: invoke_all_Inr cs1_def)
  have a2: "invoke_all (Method Think) None rnd 0 cs1 = Inr cs2"
    using fg by (simp add: invoke_all_Inr cs1_def cs2_def)
  have ne1: "cs1 \<noteq> []"
    using ne l by auto
  have "call_all (format_attr (cellrule e)) ?args rnd (cells e) = Inr cs1"
    using ne res a1 by (simp add: call_all_def)
  moreover have "call_all ''think'' None rnd cs1 = Inr cs2"
    using ne1 a2 by (simp add: call_all_def getattr_cell_def)
  ultimately have u: "update rnd e = Inr (1, e\<lparr>clock := clock e + 1, cells := filter alive cs2\<rparr>)"
    using ne by (simp add: update_def)
  have "\<forall>i < length (cells e).
        invoke (Method m) ?args (rnd i) (cells e ! i) = Inr (cs1 ! i) \<and>
        invoke (Method Think) None (rnd i) (cs1 ! i) = Inr (cs2 ! i)"
    using fg by (simp add: cs1_def cs2_def)
  with l u show ?thesis
    by blast
qed

lemma sum_list_update_int:
  fixes xs :: "int list"
  shows "i < length xs \<Longrightarrow> sum_list (xs[i := v]) = sum_list xs - xs ! i + v"
  by (induction xs arbitrary: i) (auto split: nat.splits)

lemma grid_ok_zero: "grid_ok n (replicate n (replicate n 0))"
  by (auto simp: grid_ok_def)

lemma grid_ok_mark:
  assumes "grid_ok n g" and "r < n" and "c < n"
  shows "grid_ok n (mark (r, c) g)"
proof -
  have "length row = n \<and> (\<forall>v \<in> set row. v = 0 \<or> v = 1)" if "row \<in> set (mark (r, c) g)" for row
  proof -
    from that have "row \<in> insert ((g ! r)[c := 1]) (set g)"
      using set_update_subset_insert by (fastforce simp: mark_def)
    moreover have "g ! r \<in> set g"
      using assms by (simp add: grid_ok_def)
    ultimately show ?thesis
      using assms(1) set_update_subset_insert [of "g ! r" c 1]
      by (auto simp: grid_ok_def)
  qed
  then show ?thesis
    using assms(1) by (simp add: grid_ok_def mark_def)
qed

lemma sum_grid_mark:
  assumes "grid_ok n g" and "r < n" and "c < n"
  shows "sum_grid (mark (r, c) g) \<le> sum_grid g + 1"
proof -
  have row: "g ! r \<in> set g" "length (g ! r) = n"
    using assms by (simp_all add: grid_ok_def)
  then have "g ! r ! c \<in> set (g ! r)"
    using assms(3) by simp
  moreover have "\<forall>v \<in> set (g ! r). v = 0 \<or> v = 1"
    using row(1) assms(1) by (simp add: grid_ok_def)
  ultimately have "g ! r ! c = 0 \<or> g ! r ! c = 1"
    by blast
  then have v: "0 \<le> g ! r ! c"
    by auto
  have "sum_grid (mark (r, c) g) = sum_list ((map sum_list g)[r := sum_list ((g ! r)[c := 1])])"
    by (simp add: sum_grid_def mark_def map_update)
  also have "\<dots> = sum_grid g - sum_list (g ! r) + sum_list ((g ! r)[c := 1])"
    using assms by (simp add: sum_list_update_int sum_grid_def grid_ok_def)
  also have "sum_list ((g ! r)[c := 1]) = sum_list (g ! r) - g ! r ! c + 1"
    using row assms(3) by (simp add: sum_list_update_int)
  finally show ?thesis using v by simp
qed

lemma mark_nth:
  assumes "grid_ok n g" and "r < n" and "c < n" and "i < n" and "j < n"
  shows "mark (r, c) g ! i ! j = (if (i, j) = (r, c) then 1 else g ! i ! j)"
  using assms by (auto simp: mark_def grid_ok_def nth_list_update)

lemma fold_mark:
  assumes "grid_ok n g" and "\<forall>rc \<in> set ps. fst rc < n \<and> snd rc < n"
  shows "grid_ok n (fold mark ps g) \<and>
         sum_grid (fold mark ps g) \<le> sum_grid g + int (length ps) \<and>
         (\<forall>i < n. \<forall>j < n. fold mark ps g ! i ! j = (if (i, j) \<in> set ps then 1 else g ! i ! j))"
  using assms
proof (induction ps arbitrary: g)
  case Nil
  then show ?case by simp
next
  case (Cons rc ps)
  obtain r c where rc: "rc = (r, c)"
    by (cases rc) auto
  with Cons.prems have rn: "r < n" "c < n"
    by auto
  have ok: "grid_ok n (mark (r, c) g)"
    using grid_ok_mark [OF Cons.prems(1) rn] .
  have ih: "grid_ok n (fold mark ps (mark (r, c) g))"
    "sum_grid (fold mark ps (mark (r, c) g)) \<le> sum_grid (mark (r, c) g) + int (length ps)"
    "\<forall>i < n. \<forall>j < n. fold mark ps (mark (r, c) g) ! i ! j
        = (if (i, j) \<in> set ps then 1 else mark (r, c) g ! i ! j)"
    using Cons.IH [OF ok] Cons.prems(2) by simp_all
  have "sum_grid (fold mark (rc # ps) g) \<le> sum_grid g + int (length (rc # ps))"
    using ih(2) sum_grid_mark [OF Cons.prems(1) rn] rc by simp
  moreover have "\<forall>i < n. \<forall>j < n. fold mark (rc # ps) g ! i ! j
      = (if (i, j) \<in> set (rc # ps) then 1 else g ! i ! j)"
    using ih(3) mark_nth [OF Cons.prems(1) rn] rc by auto
  ultimately show ?case
    using ih(1) rc by simp
qed

lemma sum_list_le_length:
  fixes xs :: "int list"
  shows "\<forall>v \<in> set xs. v \<le> 1 \<Longrightarrow> sum_list xs \<le> int (length xs)"
  by (induction xs) auto

lemma sum_grid_le_square:
  assumes "grid_ok n g"
  shows "sum_grid g \<le> int (n * n)"
proof -
  have "sum_list row \<le> int n" if "row \<in> set g" for row
  proof -
    from assms that have l: "length row = n" and "\<forall>v \<in> set row. v = 0 \<or> v = 1"
      by (simp_all add: grid_ok_def)
    then have "\<forall>v \<in> set row. v \<le> 1"
      by auto
    from sum_list_le_length [OF this] l show ?thesis
      by simp
  qed
  then have "sum_list (map sum_list g) \<le> sum_list (map (\<lambda>_. int n) g)"
    by (intro sum_list_mono) simp
  also have "\<dots> = int (length g) * int n"
    by (simp add: sum_list_triv)
  finally show ?thesis
    using assms by (simp add: sum_grid_def grid_ok_def)
qed

lemma py_int_range: "0 \<le> x \<Longrightarrow> x < of_nat n \<Longrightarrow> 0 \<le> py_int x \<and> py_int x < int n"
  by (simp add: py_int_def floor_less_iff)

lemma index_pairs_in_range:
  assumes "\<forall>rc \<in> set pm. 0 \<le> fst rc \<and> fst rc < int n \<and> 0 \<le> snd rc \<and> snd rc < int n"
  shows "index_pairs n pm = Some (map (\<lambda>rc. (nat (fst rc), nat (snd rc))) pm)"
  using assms by (induction pm) (auto simp: norm_index_def)

lemma sum_grid_zero: "sum_grid (replicate n (replicate m 0)) = 0"
  by (simp add: sum_grid_def sum_list_replicate)

lemma get_grid_empty: "cells e = [] \<Longrightarrow> get_grid e = Inl ValueError"
  by (simp add: get_grid_def)

text \<open>
  C8, as stated, fails for zero live cells: \<open>get_grid\<close> raises ValueError there
  and returns no grid.
\<close>

theorem get_grid_empty_counterexample:
  "cells env_empty = [] \<and> get_grid env_empty = Inl ValueError"
  by (simp add: get_grid_def env_empty_def Environment_init_def params0_def)

text \<open>
  C8, amended. For every environment with at least one live cell, all positions
  inside the grid, \<open>get_grid\<close> returns; the position map has one integer pair
  per live cell, in order; the grid is size by size, an entry is 1 exactly where
  some cell sits and 0 elsewhere (no count of overlaps), and the sum of the grid
  is at most the number of live cells and at most size squared.
\<close>

theorem get_grid_nonempty:
  assumes ne: "cells e \<noteq> []"
    and inb: "\<forall>c \<in> set (cells e). 0 \<le> fst (pos c) \<and> fst (pos c) < of_nat (size_e e) \<and>
                                   0 \<le> snd (pos c) \<and> snd (pos c) < of_nat (size_e e)"
  shows "\<exists>e'. get_grid e = Inr e' \<and>
     pos_map e' = PosList (map (\<lambda>c. (py_int (fst (pos c)), py_int (snd (pos c)))) (cells e)) \<and>
     cells e' = cells e \<and> clock e' = clock e \<and>
     length (grid e') = size_e e \<and>
     (\<forall>row \<in> set (grid e'). length row = size_e e) \<and>
     (\<forall>i < size_e e. \<forall>j < size_e e.
        grid e' ! i ! j =
          (if \<exists>c \<in> set (cells e). py_int (fst (pos c)) = int i \<and> py_int (snd (pos c)) = int j
           then 1 else 0)) \<and>
     sum_grid (grid e') \<le> int (length (cells e)) \<and>
     sum_grid (grid e') \<le> int (size_e e * size_e e)"
proof -
  let ?n = "size_e e"
  let ?zg = "replicate ?n (replicate ?n (0::int))"
  let ?pm = "map (\<lambda>c. (py_int (fst (pos c)), py_int (snd (pos c)))) (cells e)"
  let ?ps = "map (\<lambda>rc. (nat (fst rc), nat (snd rc))) ?pm"
  let ?g = "fold mark ?ps ?zg"
  have pm_range: "\<forall>rc \<in> set ?pm. 0 \<le> fst rc \<and> fst rc < int ?n \<and> 0 \<le> snd rc \<and> snd rc < int ?n"
    using inb py_int_range by auto
  then have ps_range: "\<forall>rc \<in> set ?ps. fst rc < ?n \<and> snd rc < ?n"
    by auto
  have ip: "index_pairs ?n ?pm = Some ?ps"
    using index_pairs_in_range [OF pm_range] .
  have gg: "get_grid e = Inr (e\<lparr>grid := ?g, pos_map := PosList ?pm\<rparr>)"
    using ne ip by (simp add: get_grid_def Let_def)
  note fm = fold_mark [OF grid_ok_zero [of ?n] ps_range]
  have ok: "grid_ok ?n ?g"
    using fm by blast
  have shape: "length ?g = ?n" "\<forall>row \<in> set ?g. length row = ?n"
    using ok by (simp_all add: grid_ok_def)
  have "sum_grid ?g \<le> sum_grid ?zg + int (length ?ps)"
    using fm by blast
  then have s1: "sum_grid ?g \<le> int (length (cells e))"
    by (simp add: sum_grid_zero)
  have s2: "sum_grid ?g \<le> int (?n * ?n)"
    using sum_grid_le_square [OF ok] .
  have mem: "(i, j) \<in> set ?ps \<longleftrightarrow>
      (\<exists>c \<in> set (cells e). py_int (fst (pos c)) = int i \<and> py_int (snd (pos c)) = int j)" for i j
  proof
    assume "(i, j) \<in> set ?ps"
    then obtain c where c: "c \<in> set (cells e)" "i = nat (py_int (fst (pos c)))"
      "j = nat (py_int (snd (pos c)))"
      by auto
    moreover have "0 \<le> py_int (fst (pos c))" "0 \<le> py_int (snd (pos c))"
      using pm_range c(1) by auto
    ultimately show "\<exists>c \<in> set (cells e). py_int (fst (pos c)) = int i \<and> py_int (snd (pos c)) = int j"
      by auto
  next
    assume "\<exists>c \<in> set (cells e). py_int (fst (pos c)) = int i \<and> py_int (snd (pos c)) = int j"
    then obtain c where c: "c \<in> set (cells e)" "py_int (fst (pos c)) = int i"
      "py_int (snd (pos c)) = int j"
      by blast
    then have "(nat (py_int (fst (pos c))), nat (py_int (snd (pos c)))) = (i, j)"
      by simp
    moreover have "(nat (py_int (fst (pos c))), nat (py_int (snd (pos c)))) \<in> set ?ps"
      using c(1) by (simp add: image_iff) blast
    ultimately show "(i, j) \<in> set ?ps"
      by simp
  qed
  have entries: "\<forall>i < ?n. \<forall>j < ?n. ?g ! i ! j =
      (if \<exists>c \<in> set (cells e). py_int (fst (pos c)) = int i \<and> py_int (snd (pos c)) = int j
       then 1 else 0)"
  proof (intro allI impI)
    fix i j
    assume ij: "i < ?n" "j < ?n"
    have a: "?g ! i ! j = (if (i, j) \<in> set ?ps then 1 else ?zg ! i ! j)"
      using fm ij by blast
    have b: "?zg ! i ! j = 0"
      using ij by simp
    show "?g ! i ! j =
      (if \<exists>c \<in> set (cells e). py_int (fst (pos c)) = int i \<and> py_int (snd (pos c)) = int j
       then 1 else 0)"
      by (simp only: a b mem)
  qed
  show ?thesis
    using gg shape s1 s2 entries by simp
qed

theorem get_grid_nonempty_witness:
  "cells env1 = [cell0] \<and> pos cell0 = (2, 2) \<and> size_e env1 = 5 \<and>
   (\<exists>e'. get_grid env1 = Inr e' \<and> pos_map e' = PosList [(2, 2)] \<and>
      sum_grid (grid e') \<le> 1 \<and> sum_grid (grid e') \<le> 25)"
proof -
  have c: "cells env1 = [cell0]"
    by (rule env1_cells)
  have p: "pos cell0 = (2, 2)"
    by (simp add: cell0_def)
  have n: "size_e env1 = 5"
    by (simp add: env1_def Environment_init_def params0_def)
  have h1: "cells env1 \<noteq> []"
    using c by simp
  have h2: "\<forall>c \<in> set (cells env1). 0 \<le> fst (pos c) \<and> fst (pos c) < of_nat (size_e env1) \<and>
                                   0 \<le> snd (pos c) \<and> snd (pos c) < of_nat (size_e env1)"
    using c p n by simp
  have i: "py_int 2 = 2"
    by (simp add: py_int_def)
  from get_grid_nonempty [OF h1 h2] c p n i show ?thesis
    by auto
qed

section \<open>Properties of the simulation\<close>

lemma find_None_iff_names: "find (\<lambda>r. fst r = w) rs = None \<longleftrightarrow> w \<notin> fst ` set rs"
  by (force simp: find_None_iff)

lemma Simulation_init_no_simrule:
  assumes "w \<notin> fst ` set simrules"
  shows "Simulation_init p seeds simrules cellrules w wc
       = Inl (AttributeError (simrule_message w (map fst simrules)))"
proof -
  have "find (\<lambda>r. fst r = w) simrules = None"
    using assms by (simp add: find_None_iff_names)
  then show ?thesis
    by (simp add: Simulation_init_def)
qed

lemma Simulation_init_no_cellrule:
  assumes "w \<in> fst ` set simrules" and "wc \<notin> fst ` set cellrules"
  shows "Simulation_init p seeds simrules cellrules w wc
       = Inl (AttributeError (cellrule_message wc (map fst cellrules)))"
proof -
  from assms(1) obtain sr where "find (\<lambda>r. fst r = w) simrules = Some sr"
    using find_None_iff_names [of w simrules] by (cases "find (\<lambda>r. fst r = w) simrules") auto
  moreover have "find (\<lambda>r. fst r = wc) cellrules = None"
    using assms(2) by (simp add: find_None_iff_names)
  ultimately show ?thesis
    by (simp add: Simulation_init_def Let_def)
qed

lemma Simulation_init_cells:
  assumes "w \<in> fst ` set simrules" and "wc \<in> fst ` set cellrules" and "0 < p_n_cell p"
  shows "Simulation_init p seeds simrules cellrules w wc
       = Inl (AttributeError (quoted ''Simulation'' @ '' object has no attribute '' @ quoted ''cellrule''))"
proof -
  from assms(1) obtain sr where "find (\<lambda>r. fst r = w) simrules = Some sr"
    using find_None_iff_names [of w simrules] by (cases "find (\<lambda>r. fst r = w) simrules") auto
  moreover from assms(2) obtain cr where "find (\<lambda>r. fst r = wc) cellrules = Some cr"
    using find_None_iff_names [of wc cellrules] by (cases "find (\<lambda>r. fst r = wc) cellrules") auto
  moreover have "cells (Environment_init p seeds :: 'a environment) \<noteq> []"
    using assms(3) by (simp add: Environment_init_def)
  ultimately show ?thesis
    by (simp add: Simulation_init_def Let_def)
qed

text \<open>
  C1 does not hold of the code. With the default names, both registered, and one
  cell to create, the constructor does not return a simulation: the loop that
  should attach the cell rule raises AttributeError on \<^verbatim>\<open>self.cellrule\<close>.
\<close>

theorem Simulation_init_default_fails:
  "Simulation_init params0 (\<lambda>_. seed0) registry0 registry0 ''default'' ''default''
     = Inl (AttributeError (quoted ''Simulation'' @ '' object has no attribute '' @ quoted ''cellrule''))"
  by (simp add: Simulation_init_def registry0_def Environment_init_def params0_def Let_def)

lemma Simulation_init_sim0:
  "Simulation_init (params0\<lparr>p_n_cell := 0\<rparr>) (\<lambda>_. seed0) registry0 registry0 ''default'' ''default''
     = Inr sim0"
  by (simp add: Simulation_init_def registry0_def Environment_init_def params0_def Let_def
      sim0_def env_empty_def)

lemma join_names_contains:
  "n \<in> set names \<Longrightarrow> \<exists>pre post. join_names names = pre @ n @ post"
proof (induction names rule: join_names.induct)
  case 1
  then show ?case by simp
next
  case (2 m)
  then have "join_names [m] = [] @ n @ []" by simp
  then show ?case by blast
next
  case (3 a b ns)
  show ?case
  proof (cases "n = a")
    case True
    then have "join_names (a # b # ns) = [] @ n @ ('', '' @ join_names (b # ns))"
      by simp
    then show ?thesis by blast
  next
    case False
    with 3 obtain pre post where "join_names (b # ns) = pre @ n @ post"
      by auto
    then have "join_names (a # b # ns) = (a @ '', '' @ pre) @ n @ post"
      by simp
    then show ?thesis by blast
  qed
qed

lemma messages_contain:
  assumes "n \<in> set names"
  shows "\<exists>pre post. simrule_message w names = pre @ n @ post"
    and "\<exists>pre post. cellrule_message w names = pre @ n @ post"
proof -
  from join_names_contains [OF assms] obtain pre post where j: "join_names names = pre @ n @ post"
    by blast
  have "simrule_message w names
      = (w @ '' is not a valid simulation ruleset. ['' @ pre) @ n @ (post @ '']'')"
    by (simp add: simrule_message_def j)
  then show "\<exists>pre post. simrule_message w names = pre @ n @ post"
    by blast
  have "cellrule_message w names
      = (w @ '' is not a valid cell ruleset. ['' @ pre) @ n @ (post @ '']'')"
    by (simp add: cellrule_message_def j)
  then show "\<exists>pre post. cellrule_message w names = pre @ n @ post"
    by blast
qed

lemma get_grid_errors: "get_grid e = Inl err \<Longrightarrow> err = ValueError \<or> err = IndexError"
  by (auto simp: get_grid_def Let_def split: if_splits option.splits)

lemma iteration_errors:
  assumes "iteration ap n e = Inl err"
  shows "err = ValueError \<or> err = IndexError \<or> err = TypeError \<or> (\<exists>f e'. ap f e' = Inl err)"
  using assms get_grid_errors
  by (auto simp: iteration_def call_simrule_def split: sum.splits option.splits)

lemma main_loop_errors:
  "main_loop ap n is e out = Inl err \<Longrightarrow>
     err \<noteq> ValueError \<and> (err = IndexError \<or> err = TypeError \<or> (\<exists>f e'. ap f e' = Inl err))"
proof (induction "is" arbitrary: e out)
  case Nil
  then show ?case by simp
next
  case (Cons i "is")
  show ?case
  proof (cases "iteration ap n e")
    case (Inl x)
    with Cons.prems have "x = err" "x \<noteq> ValueError"
      by (auto split: error.splits)
    then show ?thesis
      using iteration_errors [OF Inl] by auto
  next
    case (Inr e2)
    with Cons.prems Cons.IH show ?thesis
      by simp
  qed
qed


lemma get_grid_returns:
  assumes "cells e \<noteq> []"
    and "\<forall>c \<in> set (cells e). 0 \<le> fst (pos c) \<and> fst (pos c) < of_nat (size_e e) \<and>
                              0 \<le> snd (pos c) \<and> snd (pos c) < of_nat (size_e e)"
  shows "\<exists>g pm. get_grid e = Inr (e\<lparr>grid := g, pos_map := pm\<rparr>)"
proof -
  let ?pm = "map (\<lambda>c. (py_int (fst (pos c)), py_int (snd (pos c)))) (cells e)"
  have "\<forall>rc \<in> set ?pm. 0 \<le> fst rc \<and> fst rc < int (size_e e) \<and> 0 \<le> snd rc \<and> snd rc < int (size_e e)"
    using assms(2) py_int_range by auto
  from index_pairs_in_range [OF this] assms(1) show ?thesis
    by (simp add: get_grid_def Let_def) blast
qed

text \<open>
  C10. A simulation-rule name outside its registry makes the constructor fail
  with the message that lists the names of that registry; so does a cell-rule
  name outside its registry once the simulation rule has resolved. Every
  registered name occurs in the message. The run loop raises no AttributeError
  of its own: \<open>main\<close> fails with one only if a rule function raises it.
\<close>

theorem Simulation_init_unknown_rule:
  "(wsimrule \<notin> fst ` set simrules \<longrightarrow>
      Simulation_init p seeds simrules cellrules wsimrule wcellrule
        = Inl (AttributeError (simrule_message wsimrule (map fst simrules)))) \<and>
   (wsimrule \<in> fst ` set simrules \<longrightarrow> wcellrule \<notin> fst ` set cellrules \<longrightarrow>
      Simulation_init p seeds simrules cellrules wsimrule wcellrule
        = Inl (AttributeError (cellrule_message wcellrule (map fst cellrules)))) \<and>
   (\<forall>n \<in> fst ` set simrules. \<exists>pre post. simrule_message wsimrule (map fst simrules) = pre @ n @ post) \<and>
   (\<forall>n \<in> fst ` set cellrules. \<exists>pre post. cellrule_message wcellrule (map fst cellrules) = pre @ n @ post) \<and>
   ((\<forall>f e m. ap f e \<noteq> Inl (AttributeError m)) \<longrightarrow> (\<forall>m. main p ap s \<noteq> Inl (AttributeError m)))"
proof -
  have run: "main p ap s \<noteq> Inl (AttributeError m)" if "\<forall>f e m. ap f e \<noteq> Inl (AttributeError m)" for m
  proof
    assume "main p ap s = Inl (AttributeError m)"
    then have "main_loop ap (fst (simrule s)) [0..<p_num_sim p] (sim_e s) [] = Inl (AttributeError m)"
      by (simp add: main_def split: sum.splits)
    from main_loop_errors [OF this] that show False
      by auto
  qed
  show ?thesis
    using Simulation_init_no_simrule Simulation_init_no_cellrule messages_contain run
    by (simp add: image_iff) blast
qed


theorem Simulation_init_unknown_rule_witness:
  "''nope'' \<notin> fst ` set registry0 \<and> ''default'' \<in> fst ` set registry0 \<and>
   Simulation_init params0 (\<lambda>_. seed0) registry0 registry0 ''nope'' ''default''
     = Inl (AttributeError ''nope is not a valid simulation ruleset. [default]'') \<and>
   Simulation_init params0 (\<lambda>_. seed0) registry0 registry0 ''default'' ''nope''
     = Inl (AttributeError ''nope is not a valid cell ruleset. [default]'') \<and>
   (\<forall>f e m. (\<lambda>f e. Inr e) f (e :: unit environment) \<noteq> (Inl (AttributeError m) :: error + unit environment)) \<and>
   (\<forall>m. main params0 (\<lambda>f e. Inr e) sim0 \<noteq> Inl (AttributeError m))"
proof -
  have h1: "''nope'' \<notin> fst ` set registry0" and h2: "''default'' \<in> fst ` set registry0"
    by (simp_all add: registry0_def)
  have h3: "\<forall>f e m. (\<lambda>f e. Inr e) f (e :: unit environment) \<noteq> (Inl (AttributeError m) :: error + unit environment)"
    by simp
  have m1: "simrule_message ''nope'' (map fst registry0) = ''nope is not a valid simulation ruleset. [default]''"
    and m2: "cellrule_message ''nope'' (map fst registry0) = ''nope is not a valid cell ruleset. [default]''"
    by (simp_all add: simrule_message_def cellrule_message_def registry0_def)
  from Simulation_init_unknown_rule [where wsimrule = "''nope''" and simrules = registry0
      and cellrules = registry0 and wcellrule = "''default''" and p = params0
      and seeds = "\<lambda>_. seed0" and ap = "\<lambda>f e. Inr e" and s = sim0]
    Simulation_init_unknown_rule [where wsimrule = "''default''" and simrules = registry0
      and cellrules = registry0 and wcellrule = "''nope''" and p = params0
      and seeds = "\<lambda>_. seed0" and ap = "\<lambda>f e. Inr e" and s = sim0]
    h1 h2 h3 m1 m2
  show ?thesis
    by simp
qed

lemma main_loop_not_ValueError: "main_loop ap n is e out \<noteq> Inl ValueError"
  using main_loop_errors [of ap n "is" e out ValueError] by blast

lemma upt_0_2: "[0..<2] = [0, 1]"
  by (simp add: upt_rec)

text \<open>
  C9, as stated, fails: a run that completes both iterations and a run whose rule
  raises ValueError in the first one return the same status 0.
\<close>

theorem main_status_counterexample:
  "(\<exists>g1 g2. main params0 (\<lambda>f e. Inr e) sim1
       = Inr (0, [PrintIteration 0, ShowGrid 0 g1, PrintIteration 1, ShowGrid 0 g2])) \<and>
   main params0 (\<lambda>f e. Inl ValueError) sim1 = Inr (0, [PrintIteration 0, PrintDead])"
proof -
  let ?e = "sim_e sim1"
  have n: "p_num_sim params0 = 2"
    by (simp add: params0_def)
  have nm: "fst (simrule sim1) = ''default''" and at: "attrs ?e = [(''default'', ())]"
    by (simp_all add: sim1_def)
  have c: "cells ?e = [cell0]" and sz: "size_e ?e = 5" and ck: "clock ?e = 0"
    using env1_cells by (simp_all add: sim1_def env1_def Environment_init_def params0_def)
  have p: "pos cell0 = (2, 2)"
    by (simp add: cell0_def)
  have "\<exists>g pm. get_grid ?e = Inr (?e\<lparr>grid := g, pos_map := pm\<rparr>)"
    by (rule get_grid_returns) (simp_all add: c sz p)
  then obtain g1 pm1 where g1: "get_grid ?e = Inr (?e\<lparr>grid := g1, pos_map := pm1\<rparr>)"
    by blast
  let ?e2 = "?e\<lparr>grid := g1, pos_map := pm1\<rparr>"
  have "\<exists>g pm. get_grid ?e2 = Inr (?e2\<lparr>grid := g, pos_map := pm\<rparr>)"
    by (rule get_grid_returns) (simp_all add: c sz p)
  then obtain g2 pm2 where g2: "get_grid ?e2 = Inr (?e2\<lparr>grid := g2, pos_map := pm2\<rparr>)"
    by blast
  have i1: "iteration (\<lambda>f e. Inr e) ''default'' ?e = Inr ?e2"
    by (simp add: iteration_def call_simrule_def at g1)
  have i2: "iteration (\<lambda>f e. Inr e) ''default'' ?e2 = Inr (?e2\<lparr>grid := g2, pos_map := pm2\<rparr>)"
    by (simp add: iteration_def call_simrule_def at g2)
  have "main params0 (\<lambda>f e. Inr e) sim1
       = Inr (0, [PrintIteration 0, ShowGrid 0 g1, PrintIteration 1, ShowGrid 0 g2])"
    by (simp add: main_def n nm upt_0_2 i1 i2 ck)
  moreover have "main params0 (\<lambda>f e. Inl ValueError) sim1 = Inr (0, [PrintIteration 0, PrintDead])"
    by (simp add: main_def n nm upt_0_2 iteration_def call_simrule_def at)
  ultimately show ?thesis
    by blast
qed

text \<open>
  C9, amended. A ValueError raised in an iteration, by the rule or by the
  recomputation of the grid, ends the loop there: "Dead" is printed after the
  line of that iteration, no later iteration runs, and the fault does not reach
  the caller. \<open>main\<close> then returns 0, the status it returns in every case.
\<close>

theorem main_value_error:
  "main_loop ap n ks e out \<noteq> Inl ValueError \<and>
   main p ap s \<noteq> Inl ValueError \<and>
   (iteration ap n e = Inl ValueError \<longrightarrow>
      main_loop ap n (i # ks) e out = Inr (out @ [PrintIteration i, PrintDead])) \<and>
   (\<forall>st evs. main p ap s = Inr (st, evs) \<longrightarrow> st = 0)"
proof -
  have "main p ap s \<noteq> Inl ValueError"
    using main_loop_not_ValueError [of ap "fst (simrule s)" "[0..<p_num_sim p]" "sim_e s" "[]"]
    by (auto simp: main_def split: sum.splits)
  moreover have "\<forall>st evs. main p ap s = Inr (st, evs) \<longrightarrow> st = 0"
    by (auto simp: main_def split: sum.splits)
  ultimately show ?thesis
    using main_loop_not_ValueError [of ap n ks e out] by simp
qed

theorem main_value_error_witness:
  "iteration (\<lambda>f e. Inl ValueError) ''default'' (sim_e sim1) = Inl ValueError \<and>
   main_loop (\<lambda>f e. Inl ValueError) ''default'' [0, 1] (sim_e sim1) []
     = Inr [PrintIteration 0, PrintDead] \<and>
   main params0 (\<lambda>f e. Inl ValueError) sim1 = Inr (0, [PrintIteration 0, PrintDead]) \<and>
   main params0 (\<lambda>f e. Inl ValueError) sim1 \<noteq> Inl ValueError"
proof -
  have h: "iteration (\<lambda>f e. Inl ValueError) ''default'' (sim_e sim1) = Inl ValueError"
    by (simp add: iteration_def call_simrule_def sim1_def)
  have m: "main params0 (\<lambda>f e. Inl ValueError) sim1 = Inr (0, [PrintIteration 0, PrintDead])"
    by (simp add: main_def params0_def sim1_def upt_0_2 iteration_def call_simrule_def)
  from main_value_error [where ap = "\<lambda>f e. Inl ValueError" and n = "''default''" and ks = "[1]"
      and e = "sim_e sim1" and out = "[]" and p = params0 and s = sim1 and i = 0]
    h m
  show ?thesis
    by simp
qed

end
